theory Spec2Isabelle
  imports Main
begin

section \<open>The product catalogue server of \<^verbatim>\<open>server.js\<close>\<close>

text \<open>
  The server keeps a list of product objects in memory (\<^verbatim>\<open>db.products\<close>), mirrors it
  into \<^verbatim>\<open>database.json\<close> after every change, and keeps the uploaded pictures as files of
  the directory \<^verbatim>\<open>uploads\<close>. Each route callback is modelled as a function from the
  request and the state of the server to the response and the new state.

  Scope of the model.
  \<^item> Strings are lists of 8-bit characters; every character stands for the code unit
    of the same number.
  \<^item> A request is a multipart form or it is not. The upload middleware reads a
    multipart form: its fields are strings, or arrays of strings when the form repeats
    a field or names it with a trailing \<^verbatim>\<open>[]\<close>, and \<^verbatim>\<open>req.files\<close> is the list of its
    files. (A field whose name is a bracket path that builds a nested object is not
    modelled.) For any other request \<^verbatim>\<open>req.files\<close> is \<^verbatim>\<open>undefined\<close> and \<^verbatim>\<open>req.body\<close> is
    what \<^verbatim>\<open>express.json()\<close> left: the object of a JSON body, with values of any JSON
    kind, or the empty object.
  \<^item> A product object has the five properties that the create route writes, with the
    types that the routes give them, and any number of further properties (an object
    read from \<^verbatim>\<open>database.json\<close> may have some). The identifier of a product is a
    string, so that \<^verbatim>\<open>p.id == req.params.id\<close> is equality of strings. An object of
    the document that lacks the list of pictures, or whose identifier is no string, is
    outside the model.
  \<^item> The directory \<^verbatim>\<open>uploads\<close> is the set of the names of its entries. The server
    runs in its own directory, so that \<^verbatim>\<open>file.path\<close> (which is
    \<^verbatim>\<open>uploads/<filename>\<close>) and \<^verbatim>\<open>path.join(__dirname, 'uploads', image)\<close> name the
    entry \<^verbatim>\<open>filename\<close> and the entry \<^verbatim>\<open>image\<close>.
  \<^item> The names of pictures and of stored files are names of entries of that directory,
    as the storage makes them: not empty, and without a path separator.
  \<^item> \<^verbatim>\<open>fs.unlinkSync\<close> throws exactly when the entry is absent;
    \<^verbatim>\<open>fs.writeFileSync\<close> succeeds.
  \<^item> A number is \<^verbatim>\<open>NaN\<close> or the number that a decimal literal denotes; it is kept as
    that literal. A number of a JSON body is kept as the text that \<^verbatim>\<open>String\<close> gives for
    it. The server does no arithmetic on numbers, and nothing below rests on two
    literals denoting different numbers.
  \<^item> The upload middleware runs before the callbacks of the two \<^verbatim>\<open>POST\<close> routes. For
    a batch that it accepts, \<open>stored\<close> gives the state in which the callback starts.
    What the middleware does with a batch that it rejects is decided in the library
    and is not modelled; the callback does not run then.
\<close>

subsection \<open>Values\<close>

datatype jsnum = NaN | Num string

datatype json =
    JNull
  | JBool bool
  | JNum jsnum
  | JStr string
  | JArr "json list"
  | JObj "(string \<times> json) list"

text \<open>A field of a multipart form, as the upload middleware puts it into \<^verbatim>\<open>req.body\<close>.\<close>

datatype bodyval = Text string | Texts "string list"

fun field_value :: "bodyval \<Rightarrow> json" where
  "field_value (Text s) = JStr s"
| "field_value (Texts ss) = JArr (map JStr ss)"

text \<open>
  A product object. Its name is whatever the request gave, \<^verbatim>\<open>undefined\<close> (\<open>None\<close>)
  included; \<open>others\<close> are its properties other than the five.
\<close>

record product =
  ident :: string
  name :: "json option"
  price :: jsnum
  description :: json
  images :: "string list"
  others :: "(string \<times> json) list"

text \<open>An entry of \<^verbatim>\<open>req.files\<close>; the routes read its \<^verbatim>\<open>filename\<close> and its \<^verbatim>\<open>path\<close>.\<close>

record upfile =
  originalname :: string
  mimetype :: string
  filename :: string

text \<open>
  What a request carries: the fields and the files of a multipart form, or the
  properties of the object that \<^verbatim>\<open>express.json()\<close> left in \<^verbatim>\<open>req.body\<close>.
\<close>

datatype content =
    Multipart "(string \<times> bodyval) list" "upfile list"
  | Json "(string \<times> json) list"

record request =
  params_id :: string
  content :: content

text \<open>\<^verbatim>\<open>req.body\<close>, as the list of its properties; an absent property reads as \<^verbatim>\<open>undefined\<close>.\<close>

definition body :: "request \<Rightarrow> (string \<times> json) list" where
  "body req =
     (case content req of
        Multipart form fs \<Rightarrow> map (\<lambda>(k, v). (k, field_value v)) form
      | Json object \<Rightarrow> object)"

text \<open>\<^verbatim>\<open>req.files\<close>; \<open>None\<close> is \<^verbatim>\<open>undefined\<close>.\<close>

definition files :: "request \<Rightarrow> upfile list option" where
  "files req = (case content req of Multipart form fs \<Rightarrow> Some fs | Json object \<Rightarrow> None)"

record server =
  products :: "product list"
  uploads :: "string set"
  database_json :: "product list"

datatype payload =
    Product product
  | Products "product list"
  | Error string
  | Message string

type_synonym response = "nat \<times> payload"

subsection \<open>The operations of JavaScript that the routes use\<close>

text \<open>
  \<^verbatim>\<open>!v\<close>: \<^verbatim>\<open>undefined\<close>, \<^verbatim>\<open>null\<close>, \<^verbatim>\<open>false\<close>, \<^verbatim>\<open>NaN\<close>, zero and the empty string are falsy;
  arrays and objects are not.
\<close>

fun falsy :: "json option \<Rightarrow> bool" where
  "falsy None = True"
| "falsy (Some JNull) = True"
| "falsy (Some (JBool b)) = (\<not> b)"
| "falsy (Some (JNum NaN)) = True"
| "falsy (Some (JNum (Num l))) = (l = ''0'')"
| "falsy (Some (JStr s)) = (s = [])"
| "falsy (Some (JArr xs)) = False"
| "falsy (Some (JObj kvs)) = False"

text \<open>\<^verbatim>\<open>v || ''\<close>\<close>

definition or_empty :: "json option \<Rightarrow> json" where
  "or_empty v = (if falsy v then JStr [] else the v)"

datatype js_error = TypeError

text \<open>
  \<^verbatim>\<open>String(v)\<close>, the first step of \<^verbatim>\<open>parseFloat(v)\<close>. An array is the texts of its
  elements with commas between them, \<^verbatim>\<open>null\<close> counting as the empty text. An object
  is \<^verbatim>\<open>[object Object]\<close>, by the method that it inherits; when it has a property
  \<^verbatim>\<open>toString\<close> of its own, which is no function, the conversion finds no method that
  gives a primitive value and throws a \<^verbatim>\<open>TypeError\<close>.
\<close>

fun to_String :: "json \<Rightarrow> js_error + string"
  and join_elements :: "json list \<Rightarrow> js_error + string" where
  "to_String JNull = Inr ''null''"
| "to_String (JBool b) = Inr (if b then ''true'' else ''false'')"
| "to_String (JNum NaN) = Inr ''NaN''"
| "to_String (JNum (Num l)) = Inr l"
| "to_String (JStr s) = Inr s"
| "to_String (JArr xs) = join_elements xs"
| "to_String (JObj kvs) =
     (if map_of kvs ''toString'' \<noteq> None then Inl TypeError else Inr ''[object Object]'')"
| "join_elements [] = Inr []"
| "join_elements (x # xs) =
     (case (if x = JNull then Inr [] else to_String x) of
        Inl e \<Rightarrow> Inl e
      | Inr s \<Rightarrow>
          if xs = [] then Inr s
          else (case join_elements xs of Inl e \<Rightarrow> Inl e | Inr t \<Rightarrow> Inr (s @ '','' @ t)))"

definition isWhiteSpace :: "char \<Rightarrow> bool" where
  "isWhiteSpace c = (of_char c \<in> {9, 10, 11, 12, 13, 32, 160 :: nat})"

definition isDigit :: "char \<Rightarrow> bool" where
  "isDigit c = (48 \<le> (of_char c :: nat) \<and> (of_char c :: nat) \<le> 57)"

text \<open>
  The exponent part at the head of the text (\<^verbatim>\<open>e\<close> or \<^verbatim>\<open>E\<close>, an optional sign and at
  least one digit), or nothing.
\<close>

definition exponent_part :: "string \<Rightarrow> string" where
  "exponent_part s =
     (case s of
        [] \<Rightarrow> []
      | e # r \<Rightarrow>
          if e = CHR ''e'' \<or> e = CHR ''E'' then
            (let sg = (case r of [] \<Rightarrow> [] | c # _ \<Rightarrow> if c = CHR ''+'' \<or> c = CHR ''-'' then [c] else []);
                 ds = takeWhile isDigit (drop (length sg) r)
             in if ds = [] then [] else e # sg @ ds)
          else [])"

text \<open>The longest prefix of the text that is an unsigned decimal literal, if there is one.\<close>

definition unsigned_literal :: "string \<Rightarrow> string option" where
  "unsigned_literal s =
     (if take 8 s = ''Infinity'' then Some ''Infinity''
      else
        let ds = takeWhile isDigit s; r = dropWhile isDigit s in
        (case r of
           c # r' \<Rightarrow>
             if c = CHR ''.'' then
               (let fs = takeWhile isDigit r'; r'' = dropWhile isDigit r' in
                if ds = [] \<and> fs = [] then None
                else Some (ds @ ''.'' @ fs @ exponent_part r''))
             else if ds = [] then None
             else Some (ds @ exponent_part r)
         | [] \<Rightarrow> if ds = [] then None else Some ds))"

text \<open>
  The text that \<^verbatim>\<open>parseFloat\<close> reads as a number: leading white space is dropped, and
  the longest prefix of the rest that is a decimal literal with an optional sign is
  taken. What follows the literal is ignored.
\<close>

definition numeric_prefix :: "string \<Rightarrow> string option" where
  "numeric_prefix s =
     (let t = dropWhile isWhiteSpace s in
      case t of
        [] \<Rightarrow> None
      | c # r \<Rightarrow>
          if c = CHR ''+'' \<or> c = CHR ''-'' then map_option (\<lambda>l. c # l) (unsigned_literal r)
          else unsigned_literal t)"

text \<open>
  \<^verbatim>\<open>parseFloat(v)\<close>: the number that the text of the value begins with, \<^verbatim>\<open>NaN\<close> when it
  begins with none, or the exception of the conversion to a text.
\<close>

definition parseFloat :: "json option \<Rightarrow> js_error + jsnum" where
  "parseFloat v =
     (case (case v of None \<Rightarrow> Inr ''undefined'' | Some x \<Rightarrow> to_String x) of
        Inl e \<Rightarrow> Inl e
      | Inr s \<Rightarrow> Inr (case numeric_prefix s of None \<Rightarrow> NaN | Some l \<Rightarrow> Num l))"

text \<open>\<^verbatim>\<open>Date.now().toString()\<close>: the decimal digits of the clock's value.\<close>

definition digit_char :: "nat \<Rightarrow> char" where
  "digit_char d = ''0123456789'' ! d"

fun toString :: "nat \<Rightarrow> string" where
  "toString n = (if n < 10 then [digit_char n] else toString (n div 10) @ [digit_char (n mod 10)])"

declare toString.simps [simp del]

text \<open>\<^verbatim>\<open>Array.prototype.findIndex\<close>: the index of the first element that satisfies the test, or \<open>-1\<close>.\<close>

fun findIndex_from :: "int \<Rightarrow> ('a \<Rightarrow> bool) \<Rightarrow> 'a list \<Rightarrow> int" where
  "findIndex_from k P [] = - 1"
| "findIndex_from k P (x # xs) = (if P x then k else findIndex_from (k + 1) P xs)"

definition findIndex :: "('a \<Rightarrow> bool) \<Rightarrow> 'a list \<Rightarrow> int" where
  "findIndex P xs = findIndex_from 0 P xs"

text \<open>\<^verbatim>\<open>xs.splice(i, 1)\<close> for an index of the array.\<close>

definition splice1 :: "nat \<Rightarrow> 'a list \<Rightarrow> 'a list" where
  "splice1 i xs = take i xs @ drop (Suc i) xs"

subsection \<open>Files and the persisted document\<close>

datatype fs_error = ENOENT

definition existsSync :: "string \<Rightarrow> server \<Rightarrow> bool" where
  "existsSync f st = (f \<in> uploads st)"

text \<open>\<^verbatim>\<open>fs.unlinkSync\<close>: \<open>Inl\<close> is the exception, \<open>Inr\<close> the state after the removal.\<close>

definition unlinkSync :: "string \<Rightarrow> server \<Rightarrow> fs_error + server" where
  "unlinkSync f st =
     (if f \<in> uploads st then Inr (st\<lparr>uploads := uploads st - {f}\<rparr>) else Inl ENOENT)"

definition saveDatabase :: "server \<Rightarrow> server" where
  "saveDatabase st = st\<lparr>database_json := products st\<rparr>"

text \<open>
  The disk storage of the upload middleware (lines 20 to 28): when the route callback
  starts, every file of \<^verbatim>\<open>req.files\<close> has been written to \<^verbatim>\<open>uploads/<filename>\<close>.
\<close>

definition req_files :: "request \<Rightarrow> upfile list" where
  "req_files req = (case files req of None \<Rightarrow> [] | Some fs \<Rightarrow> fs)"

definition stored :: "request \<Rightarrow> server \<Rightarrow> server" where
  "stored req st = st\<lparr>uploads := uploads st \<union> set (map filename (req_files req))\<rparr>"

text \<open>
  \<^verbatim>\<open>req.files.forEach(file => { fs.unlinkSync(file.path); })\<close>. An exception leaves the
  loop; the removals made before it stay. \<open>Inl\<close> carries the state at the exception.
\<close>

fun unlink_files :: "upfile list \<Rightarrow> server \<Rightarrow> (fs_error \<times> server) + server" where
  "unlink_files [] st = Inr st"
| "unlink_files (f # fs) st =
     (case unlinkSync (filename f) st of
        Inl e \<Rightarrow> Inl (e, st)
      | Inr st' \<Rightarrow> unlink_files fs st')"

text \<open>The clean-up of the uploaded files, with its guard \<^verbatim>\<open>req.files && req.files.length > 0\<close>.\<close>

definition cleanup :: "request \<Rightarrow> server \<Rightarrow> (fs_error \<times> server) + server" where
  "cleanup req st =
     (case files req of
        None \<Rightarrow> Inr st
      | Some fs \<Rightarrow> if length fs > 0 then unlink_files fs st else Inr st)"

text \<open>
  \<^verbatim>\<open>product.images.forEach(image => { if (fs.existsSync(imagePath)) fs.unlinkSync(imagePath); })\<close>
\<close>

fun unlink_images :: "string list \<Rightarrow> server \<Rightarrow> (fs_error \<times> server) + server" where
  "unlink_images [] st = Inr st"
| "unlink_images (i # is) st =
     (if existsSync i st then
        (case unlinkSync i st of
           Inl e \<Rightarrow> Inl (e, st)
         | Inr st' \<Rightarrow> unlink_images is st')
      else unlink_images is st)"

subsection \<open>The routes\<close>

text \<open>\<^verbatim>\<open>GET /api/products\<close>\<close>

definition get_products :: "server \<Rightarrow> response" where
  "get_products st = (200, Products (products st))"

text \<open>\<^verbatim>\<open>GET /api/products/:id\<close>\<close>

definition get_product :: "string \<Rightarrow> server \<Rightarrow> response" where
  "get_product i st =
     (case find (\<lambda>p. ident p = i) (products st) of
        Some p \<Rightarrow> (200, Product p)
      | None \<Rightarrow> (404, Error ''Product not found''))"

text \<open>The answer of the \<^verbatim>\<open>catch\<close> block of a route.\<close>

definition internal_error :: response where
  "internal_error = (500, Error ''Internal server error'')"

text \<open>
  \<^verbatim>\<open>POST /api/products\<close>; \<open>now\<close> is the value of \<^verbatim>\<open>Date.now()\<close> at the call. An
  exception of \<^verbatim>\<open>parseFloat\<close> is thrown while the new object is built, before the
  collection is touched.
\<close>

definition post_products :: "nat \<Rightarrow> request \<Rightarrow> server \<Rightarrow> response \<times> server" where
  "post_products now req st =
     (let name' = map_of (body req) ''name'';
          price' = map_of (body req) ''price'';
          description' = map_of (body req) ''description''
      in
      if falsy name' \<or> falsy price' \<or> files req = None \<or> length (req_files req) = 0 then
        (case cleanup req st of
           Inl (e, st') \<Rightarrow> (internal_error, st')
         | Inr st' \<Rightarrow> ((400, Error ''Name, price, and at least one image are required''), st'))
      else
        let images' = map filename (req_files req) in
        (case parseFloat price' of
           Inl e \<Rightarrow> (internal_error, st)
         | Inr number \<Rightarrow>
             let newProduct = \<lparr>ident = toString now, name = name', price = number,
                               description = or_empty description', images = images',
                               others = []\<rparr>;
                 st1 = st\<lparr>products := products st @ [newProduct]\<rparr>
             in ((201, Product newProduct), saveDatabase st1)))"

text \<open>
  \<^verbatim>\<open>POST /api/products/:id\<close>. An exception of \<^verbatim>\<open>parseFloat\<close> is thrown while the
  updated object is built, before the collection is touched.
\<close>

definition post_product :: "request \<Rightarrow> server \<Rightarrow> response \<times> server" where
  "post_product req st =
     (let name' = map_of (body req) ''name'';
          price' = map_of (body req) ''price'';
          description' = map_of (body req) ''description'';
          productIndex = findIndex (\<lambda>p. ident p = params_id req) (products st)
      in
      if productIndex = - 1 then
        (case cleanup req st of
           Inl (e, st') \<Rightarrow> (internal_error, st')
         | Inr st' \<Rightarrow> ((404, Error ''Product not found''), st'))
      else
        let old = products st ! nat productIndex;
            images0 = images old;
            images' = (if files req \<noteq> None \<and> length (req_files req) > 0
                       then images0 @ map filename (req_files req) else images0)
        in
        (case parseFloat price' of
           Inl e \<Rightarrow> (internal_error, st)
         | Inr number \<Rightarrow>
             let updatedProduct = old\<lparr>name := name', price := number,
                                      description := or_empty description', images := images'\<rparr>;
                 st1 = st\<lparr>products := (products st)[nat productIndex := updatedProduct]\<rparr>
             in ((200, Product updatedProduct), saveDatabase st1)))"

text \<open>\<^verbatim>\<open>DELETE /api/products/:id\<close>\<close>

definition delete_product :: "request \<Rightarrow> server \<Rightarrow> response \<times> server" where
  "delete_product req st =
     (let productIndex = findIndex (\<lambda>p. ident p = params_id req) (products st) in
      if productIndex = - 1 then ((404, Error ''Product not found''), st)
      else
        let product = products st ! nat productIndex in
        (case (if length (images product) > 0 then unlink_images (images product) st else Inr st) of
           Inl (e, st') \<Rightarrow> (internal_error, st')
         | Inr st' \<Rightarrow>
             ((200, Message ''Product deleted successfully''),
              saveDatabase (st'\<lparr>products := splice1 (nat productIndex) (products st')\<rparr>))))"

section \<open>Example data\<close>

text \<open>
  Two products whose identifiers are the same clock value, as two create requests served
  in the same millisecond leave them, and the files that the upload middleware has stored
  for them.
\<close>

definition pic1 :: upfile where
  "pic1 = \<lparr>originalname = ''front.png'', mimetype = ''image/png'',
           filename = ''1700000000000-111.png''\<rparr>"

definition pic2 :: upfile where
  "pic2 = \<lparr>originalname = ''back.png'', mimetype = ''image/png'',
           filename = ''1700000000000-222.png''\<rparr>"

definition pic3 :: upfile where
  "pic3 = \<lparr>originalname = ''cap.png'', mimetype = ''image/png'',
           filename = ''1700000000000-333.png''\<rparr>"

text \<open>
  Two files for which the storage has drawn a name once more: the first has the stored
  name of \<open>pic3\<close>, the second the stored name of \<open>pic1\<close>.
\<close>

definition pic3_again :: upfile where
  "pic3_again = \<lparr>originalname = ''side.png'', mimetype = ''image/png'',
                 filename = ''1700000000000-333.png''\<rparr>"

definition pic1_again :: upfile where
  "pic1_again = \<lparr>originalname = ''label.png'', mimetype = ''image/png'',
                 filename = ''1700000000000-111.png''\<rparr>"

definition shirt :: product where
  "shirt = \<lparr>ident = ''1700000000000'', name = Some (JStr ''Shirt''), price = Num ''100000'',
            description = JStr [], images = [''1700000000000-111.png'', ''1700000000000-222.png''],
            others = []\<rparr>"

definition cap :: product where
  "cap = \<lparr>ident = ''1700000000000'', name = Some (JStr ''Cap''), price = Num ''5'',
          description = JStr [], images = [''1700000000000-333.png''], others = []\<rparr>"

text \<open>The store before anything is created, and after the shirt has been created.\<close>

definition empty_store :: server where
  "empty_store = \<lparr>products = [], uploads = {}, database_json = []\<rparr>"

definition shirt_store :: server where
  "shirt_store = \<lparr>products = [shirt],
                  uploads = {''1700000000000-111.png'', ''1700000000000-222.png''},
                  database_json = [shirt]\<rparr>"

text \<open>The form that creates the shirt, with a stock and a pin flag, and the one that creates the cap.\<close>

definition create_shirt :: request where
  "create_shirt = \<lparr>params_id = [],
     content = Multipart
       [(''name'', Text ''Shirt''), (''price'', Text ''100000''), (''stock'', Text ''5''),
        (''description'', Text []), (''pinned'', Text ''true'')]
       [pic1, pic2]\<rparr>"

definition create_cap :: request where
  "create_cap = \<lparr>params_id = [],
     content = Multipart
       [(''name'', Text ''Cap''), (''price'', Text ''5''), (''stock'', Text ''0''),
        (''description'', Text []), (''pinned'', Text ''false'')]
       [pic3]\<rparr>"

text \<open>
  Create forms whose name is empty: with one picture, with two pictures stored under one
  name, and with a picture stored under the name of the first picture of the shirt.
\<close>

definition create_nameless :: request where
  "create_nameless = \<lparr>params_id = [],
     content = Multipart
       [(''name'', Text []), (''price'', Text ''100000''), (''stock'', Text ''5''),
        (''description'', Text []), (''pinned'', Text ''false'')]
       [pic3]\<rparr>"

definition create_nameless_twice :: request where
  "create_nameless_twice = \<lparr>params_id = [],
     content = Multipart
       [(''name'', Text []), (''price'', Text ''100000''), (''stock'', Text ''5''),
        (''description'', Text []), (''pinned'', Text ''false'')]
       [pic3, pic3_again]\<rparr>"

definition create_nameless_clash :: request where
  "create_nameless_clash = \<lparr>params_id = [],
     content = Multipart
       [(''name'', Text []), (''price'', Text ''100000''), (''stock'', Text ''5''),
        (''description'', Text []), (''pinned'', Text ''false'')]
       [pic1_again]\<rparr>"

text \<open>
  An edit of the shirt that keeps the first picture only, adds none, and sets a new name,
  price, stock, description and pin flag.
\<close>

definition edit_shirt :: request where
  "edit_shirt = \<lparr>params_id = ''1700000000000'',
     content = Multipart
       [(''name'', Text ''Shirt XL''), (''price'', Text ''120000''), (''stock'', Text ''9''),
        (''description'', Text ''Large''), (''pinned'', Text ''true''),
        (''_method'', Text ''PUT''), (''existingImages'', Texts [''1700000000000-111.png''])]
       []\<rparr>"

text \<open>
  Edits of the shirt: with no name and no price; with a price that is no number; with a
  price that is no number but begins with one; and, in a JSON body, with a price that is
  an object with a property \<^verbatim>\<open>toString\<close>.
\<close>

definition edit_blank :: request where
  "edit_blank = \<lparr>params_id = ''1700000000000'', content = Multipart [] []\<rparr>"

definition edit_priceless :: request where
  "edit_priceless = \<lparr>params_id = ''1700000000000'',
     content = Multipart [(''name'', Text ''Shirt''), (''price'', Text ''abc'')] []\<rparr>"

definition edit_12abc :: request where
  "edit_12abc = \<lparr>params_id = ''1700000000000'',
     content = Multipart [(''name'', Text ''Shirt''), (''price'', Text ''12abc'')] []\<rparr>"

definition edit_unprintable :: request where
  "edit_unprintable = \<lparr>params_id = ''1700000000000'',
     content = Json [(''name'', JStr ''Shirt''),
                     (''price'', JObj [(''toString'', JNum (Num ''0''))])]\<rparr>"

text \<open>
  Edits of a product that the store does not hold: with one picture, with two pictures
  stored under one name, and with a picture stored under the name of the first picture
  of the shirt.
\<close>

definition edit_unknown :: request where
  "edit_unknown = \<lparr>params_id = ''42'',
     content = Multipart [(''name'', Text ''Cap''), (''price'', Text ''5'')] [pic3]\<rparr>"

definition edit_unknown_twice :: request where
  "edit_unknown_twice = \<lparr>params_id = ''42'',
     content = Multipart [(''name'', Text ''Cap''), (''price'', Text ''5'')] [pic3, pic3_again]\<rparr>"

definition edit_unknown_clash :: request where
  "edit_unknown_clash = \<lparr>params_id = ''42'',
     content = Multipart [(''name'', Text ''Cap''), (''price'', Text ''5'')] [pic1_again]\<rparr>"

text \<open>The request that deletes the product with the identifier of the shirt.\<close>

definition delete_shirt :: request where
  "delete_shirt = \<lparr>params_id = ''1700000000000'', content = Json []\<rparr>"

section \<open>Properties\<close>

subsection \<open>Searching the collection\<close>

lemma find_None_findIndex_from:
  "find P xs = None \<Longrightarrow> findIndex_from k P xs = - 1"
  by (induction xs arbitrary: k) (auto split: if_splits)

lemma find_Some_findIndex_from:
  "find P xs = Some p \<Longrightarrow>
     findIndex_from k P xs = k + int (length (takeWhile (\<lambda>x. \<not> P x) xs)) \<and>
     xs ! length (takeWhile (\<lambda>x. \<not> P x) xs) = p"
  by (induction xs arbitrary: k) (auto split: if_splits)

lemma find_None_findIndex: "find P xs = None \<Longrightarrow> findIndex P xs = - 1"
  by (simp add: findIndex_def find_None_findIndex_from)

lemma find_Some_findIndex:
  assumes "find P xs = Some p"
  shows "findIndex P xs = int (length (takeWhile (\<lambda>x. \<not> P x) xs))"
    and "xs ! length (takeWhile (\<lambda>x. \<not> P x) xs) = p"
  using find_Some_findIndex_from [OF assms, of 0] by (simp_all add: findIndex_def)

text \<open>When one element only satisfies the test, removing the first match removes every match.\<close>

lemma splice1_unique:
  "length (filter P xs) = 1 \<Longrightarrow>
   splice1 (length (takeWhile (\<lambda>x. \<not> P x) xs)) xs = filter (\<lambda>x. \<not> P x) xs"
proof (induction xs)
  case Nil
  then show ?case by simp
next
  case (Cons x xs)
  show ?case
  proof (cases "P x")
    case True
    with Cons.prems have "filter P xs = []" by simp
    then have "filter (\<lambda>x. \<not> P x) xs = xs" by (simp add: filter_empty_conv)
    with True show ?thesis by (simp add: splice1_def)
  next
    case False
    with Cons show ?thesis by (simp add: splice1_def)
  qed
qed

subsection \<open>Removing files\<close>

text \<open>The guarded removal never throws, and leaves none of the listed names.\<close>

lemma unlink_images_ok:
  "unlink_images is st = Inr (st\<lparr>uploads := uploads st - set is\<rparr>)"
proof (induction "is" arbitrary: st)
  case Nil
  show ?case by simp
next
  case (Cons i "is")
  show ?case
  proof (cases "i \<in> uploads st")
    case True
    have "uploads st - {i} - set is = uploads st - insert i (set is)" by blast
    with True show ?thesis by (simp add: existsSync_def unlinkSync_def Cons.IH)
  next
    case False
    then have "uploads st - set is = uploads st - insert i (set is)" by blast
    with False show ?thesis by (simp add: existsSync_def Cons.IH)
  qed
qed

text \<open>
  The unguarded removal goes through when every file is there and no name comes twice.
\<close>

lemma unlink_files_ok:
  "distinct (map filename fs) \<Longrightarrow> set (map filename fs) \<subseteq> uploads st \<Longrightarrow>
   unlink_files fs st = Inr (st\<lparr>uploads := uploads st - set (map filename fs)\<rparr>)"
proof (induction fs arbitrary: st)
  case Nil
  show ?case by simp
next
  case (Cons f fs)
  let ?st = "st\<lparr>uploads := uploads st - {filename f}\<rparr>"
  from Cons.prems have in_st: "filename f \<in> uploads st" by simp
  from Cons.prems have nf: "filename f \<notin> set (map filename fs)"
    and sub: "set (map filename fs) \<subseteq> uploads st" by simp_all
  from nf sub have sub': "set (map filename fs) \<subseteq> uploads ?st"
    by (simp del: set_map) blast
  from Cons.prems have "distinct (map filename fs)" by simp
  from this sub' have "unlink_files fs ?st = Inr (?st\<lparr>uploads := uploads ?st - set (map filename fs)\<rparr>)"
    by (rule Cons.IH)
  moreover have "uploads st - {filename f} - set (map filename fs)
        = uploads st - set (map filename (f # fs))" by auto
  ultimately show ?case using in_st by (simp add: unlinkSync_def)
qed

text \<open>
  The clean-up of a request undoes the storing of its files, when the stored names are
  new to the directory and pairwise different.
\<close>

lemma cleanup_stored:
  assumes "distinct (map filename (req_files req))"
    and "set (map filename (req_files req)) \<inter> uploads st = {}"
  shows "cleanup req (stored req st) = Inr st"
proof (cases "files req")
  case None
  then show ?thesis by (simp add: cleanup_def stored_def req_files_def)
next
  case (Some fs)
  let ?F = "set (map filename fs)"
  from Some assms have d: "distinct (map filename fs)" and fresh: "?F \<inter> uploads st = {}"
    by (simp_all add: req_files_def)
  have st: "stored req st = st\<lparr>uploads := uploads st \<union> ?F\<rparr>"
    using Some by (simp add: stored_def req_files_def)
  have "unlink_files fs (st\<lparr>uploads := uploads st \<union> ?F\<rparr>)
        = Inr (st\<lparr>uploads := uploads st \<union> ?F\<rparr>
                \<lparr>uploads := uploads (st\<lparr>uploads := uploads st \<union> ?F\<rparr>) - ?F\<rparr>)"
    using d by (intro unlink_files_ok) simp_all
  moreover from fresh have "uploads st \<union> ?F - ?F = uploads st" by blast
  ultimately have "unlink_files fs (st\<lparr>uploads := uploads st \<union> ?F\<rparr>) = Inr st"
    by (simp del: set_map)
  then show ?thesis
    using Some st by (cases fs) (simp_all add: cleanup_def)
qed

subsection \<open>Reading back and reading the request\<close>

lemma find_append_new:
  "\<forall>x\<in>set xs. \<not> P x \<Longrightarrow> P y \<Longrightarrow> find P (xs @ [y]) = Some y"
  by (induction xs) auto

lemma find_list_update_first:
  "find P xs = Some p \<Longrightarrow> P y \<Longrightarrow>
   find P (xs[length (takeWhile (\<lambda>x. \<not> P x) xs) := y]) = Some y"
  by (induction xs) (auto split: if_splits)

lemma find_filter_None: "find P (filter (\<lambda>x. \<not> P x) xs) = None"
  by (simp add: find_None_iff)

text \<open>The fields of a multipart form have texts: \<^verbatim>\<open>parseFloat\<close> does not throw on them.\<close>

lemma join_elements_texts: "\<exists>t. join_elements (map JStr ss) = Inr t"
proof (induction ss)
  case Nil
  show ?case by simp
next
  case (Cons s ss)
  then obtain t where "join_elements (map JStr ss) = Inr t" by blast
  then show ?case by (cases ss) simp_all
qed

lemma to_String_field_value: "\<exists>t. to_String (field_value v) = Inr t"
  by (cases v) (simp_all add: join_elements_texts)

lemma body_Multipart:
  "content req = Multipart form fs \<Longrightarrow>
   map_of (body req) k = map_option field_value (map_of form k)"
  by (simp add: body_def map_of_map)

lemma parseFloat_Multipart:
  assumes "content req = Multipart form fs"
  shows "\<exists>number. parseFloat (map_of (body req) k) = Inr number"
proof (cases "map_of form k")
  case None
  then show ?thesis by (simp add: body_Multipart [OF assms] parseFloat_def)
next
  case (Some v)
  obtain t where "to_String (field_value v) = Inr t"
    using to_String_field_value by blast
  with Some show ?thesis by (simp add: body_Multipart [OF assms] parseFloat_def)
qed

lemma req_files_Multipart:
  "req_files req \<noteq> [] \<Longrightarrow> \<exists>form fs. content req = Multipart form fs \<and> files req = Some fs"
  by (cases "content req") (simp_all add: req_files_def files_def)

subsection \<open>Creating a product\<close>

text \<open>
  C3, as the code has it: a create request whose name is missing or empty, or whose
  price is missing or empty, or that comes with no file, and whose files were stored
  under names that are pairwise different and were not in the directory before, is
  answered 400 with the message that names the three requirements, and the state of the
  server after it is the state before the files of the request were stored: the
  collection and the persisted document are untouched and the directory holds the files
  it held.
\<close>

theorem create_invalid_reclaims_uploads:
  assumes "falsy (map_of (body req) ''name'') \<or> falsy (map_of (body req) ''price'') \<or>
           req_files req = []"
    and "distinct (map filename (req_files req))"
    and "set (map filename (req_files req)) \<inter> uploads st = {}"
  shows "post_products now req (stored req st) =
           ((400, Error ''Name, price, and at least one image are required''), st)"
proof -
  have "falsy (map_of (body req) ''name'') \<or> falsy (map_of (body req) ''price'') \<or>
        files req = None \<or> length (req_files req) = 0"
    using assms(1) by auto
  then show ?thesis
    by (simp add: post_products_def cleanup_stored [OF assms(2,3)])
qed

text \<open>
  The form with the empty name and one picture, sent while the store holds the shirt:
  the picture is in the directory when the callback starts and gone when it ends.
\<close>

theorem create_invalid_reclaims_uploads_witness:
  "falsy (map_of (body create_nameless) ''name'') \<and>
   distinct (map filename (req_files create_nameless)) \<and>
   set (map filename (req_files create_nameless)) \<inter> uploads shirt_store = {} \<and>
   ''1700000000000-333.png'' \<in> uploads (stored create_nameless shirt_store) \<and>
   post_products 1700000000000 create_nameless (stored create_nameless shirt_store) =
     ((400, Error ''Name, price, and at least one image are required''), shirt_store)"
proof -
  have n: "falsy (map_of (body create_nameless) ''name'') \<or>
           falsy (map_of (body create_nameless) ''price'') \<or> req_files create_nameless = []"
    by (simp add: create_nameless_def body_def)
  have d: "distinct (map filename (req_files create_nameless))"
    by (simp add: create_nameless_def req_files_def files_def)
  have f: "set (map filename (req_files create_nameless)) \<inter> uploads shirt_store = {}"
    by (simp add: create_nameless_def req_files_def files_def pic3_def shirt_store_def)
  have s: "''1700000000000-333.png'' \<in> uploads (stored create_nameless shirt_store)"
    by (simp add: stored_def create_nameless_def req_files_def files_def pic3_def)
  show ?thesis
    using create_invalid_reclaims_uploads [OF n d f, of 1700000000000] d f s
    by (simp add: create_nameless_def body_def)
qed

text \<open>
  The claim C3 as the specification states it fails when the storage draws a name
  twice. With two files of the request under one name, the second removal throws and
  the answer is 500, not 400. With a file under the name of a picture of the shirt, the
  answer is 400 and that picture, which was in the directory before the request and
  which the shirt still lists, is gone.
\<close>

theorem create_invalid_name_collision:
  "fst (post_products 1700000000000 create_nameless_twice
          (stored create_nameless_twice shirt_store))
     = (500, Error ''Internal server error'') \<and>
   ''1700000000000-111.png'' \<in> uploads shirt_store \<and>
   post_products 1700000000000 create_nameless_clash (stored create_nameless_clash shirt_store)
     = ((400, Error ''Name, price, and at least one image are required''),
        shirt_store\<lparr>uploads := {''1700000000000-222.png''}\<rparr>)"
  by (simp add: post_products_def create_nameless_twice_def create_nameless_clash_def
      body_def files_def req_files_def stored_def cleanup_def unlinkSync_def internal_error_def
      pic3_def pic3_again_def pic1_again_def shirt_store_def insert_Diff_if)

text \<open>
  C5, as the code has it: for a create request with a name, a price and at least one
  file, sent when no product of the store has the decimal digits of the clock value as
  its identifier, the answer is 201 with a record whose identifier is those digits,
  reading that identifier back answers 200 with the same record, and the pictures of
  the record are the stored names of the files of the request, one for each file.
\<close>

theorem create_then_get_fresh_id:
  assumes "\<not> falsy (map_of (body req) ''name'')"
    and "\<not> falsy (map_of (body req) ''price'')"
    and "req_files req \<noteq> []"
    and "\<forall>p\<in>set (products st). ident p \<noteq> toString now"
  shows "\<exists>p. fst (post_products now req st) = (201, Product p) \<and>
           ident p = toString now \<and>
           get_product (ident p) (snd (post_products now req st)) = (200, Product p) \<and>
           images p = map filename (req_files req) \<and>
           length (images p) = length (req_files req)"
proof -
  from assms(3) obtain form fs where form: "content req = Multipart form fs"
    and some: "files req = Some fs"
    using req_files_Multipart by blast
  from form obtain number where number: "parseFloat (map_of (body req) ''price'') = Inr number"
    using parseFloat_Multipart by blast
  let ?p = "\<lparr>ident = toString now, name = map_of (body req) ''name'',
             price = number,
             description = or_empty (map_of (body req) ''description''),
             images = map filename (req_files req), others = []\<rparr>"
  have run: "post_products now req st =
      ((201, Product ?p), st\<lparr>products := products st @ [?p], database_json := products st @ [?p]\<rparr>)"
    using assms(1-3) some number by (simp add: post_products_def Let_def saveDatabase_def)
  have "find (\<lambda>q. ident q = toString now) (products st @ [?p]) = Some ?p"
    using assms(4) by (intro find_append_new) simp_all
  then show ?thesis
    by (simp add: run get_product_def)
qed

text \<open>
  The shirt, created in the empty store: two files, two pictures, and the same record
  read back.
\<close>

theorem create_then_get_fresh_id_witness:
  "\<not> falsy (map_of (body create_shirt) ''name'') \<and>
   \<not> falsy (map_of (body create_shirt) ''price'') \<and>
   req_files create_shirt \<noteq> [] \<and>
   fst (post_products 1700000000000 create_shirt (stored create_shirt empty_store))
     = (201, Product shirt) \<and>
   get_product ''1700000000000''
     (snd (post_products 1700000000000 create_shirt (stored create_shirt empty_store)))
     = (200, Product shirt) \<and>
   length (images shirt) = 2"
proof -
  have n: "\<not> falsy (map_of (body create_shirt) ''name'')"
    and p: "\<not> falsy (map_of (body create_shirt) ''price'')"
    and f: "req_files create_shirt \<noteq> []"
    by (simp_all add: create_shirt_def req_files_def files_def body_def)
  have e: "\<forall>p\<in>set (products (stored create_shirt empty_store)). ident p \<noteq> toString 1700000000000"
    by (simp add: stored_def empty_store_def)
  have t: "toString 1700000000000 = ''1700000000000''"
    by (simp add: toString.simps digit_char_def)
  from create_then_get_fresh_id [OF n p f e] obtain q where
    q: "fst (post_products 1700000000000 create_shirt (stored create_shirt empty_store))
          = (201, Product q)"
       "get_product (ident q)
          (snd (post_products 1700000000000 create_shirt (stored create_shirt empty_store)))
          = (200, Product q)"
       "ident q = toString 1700000000000"
    by blast
  have "fst (post_products 1700000000000 create_shirt (stored create_shirt empty_store))
          = (201, Product shirt)"
    by (simp add: post_products_def create_shirt_def req_files_def files_def body_def t
        parseFloat_def numeric_prefix_def unsigned_literal_def exponent_part_def
        isWhiteSpace_def isDigit_def or_empty_def pic1_def pic2_def shirt_def Let_def)
  with q have "q = shirt" by simp
  with q t n p f show ?thesis by (simp add: shirt_def)
qed

text \<open>
  The claim C5 as the specification states it fails when the store already holds a
  product that was created in the same millisecond: the cap is created and returned,
  and reading its identifier back answers with the shirt.
\<close>

theorem create_then_get_same_millisecond:
  "fst (post_products 1700000000000 create_cap (stored create_cap shirt_store))
     = (201, Product cap) \<and>
   get_product (ident cap)
     (snd (post_products 1700000000000 create_cap (stored create_cap shirt_store)))
     = (200, Product shirt) \<and>
   shirt \<noteq> cap"
  by (simp add: post_products_def create_cap_def stored_def shirt_store_def req_files_def
      files_def body_def toString.simps digit_char_def parseFloat_def numeric_prefix_def
      unsigned_literal_def exponent_part_def isWhiteSpace_def isDigit_def or_empty_def
      saveDatabase_def get_product_def pic3_def shirt_def cap_def Let_def)

text \<open>
  C6, at the form that creates the shirt with the stock 5 and the pin flag set: the
  record that the create route builds, stores and returns has the properties
  \<^verbatim>\<open>id\<close>, \<^verbatim>\<open>name\<close>, \<^verbatim>\<open>price\<close>, \<^verbatim>\<open>description\<close> and \<^verbatim>\<open>images\<close> and no other; it has
  neither a stock nor a pin flag, whether the form sends them or not.
\<close>

theorem create_drops_stock_and_pinned:
  "map_of (body create_shirt) ''stock'' = Some (JStr ''5'') \<and>
   map_of (body create_shirt) ''pinned'' = Some (JStr ''true'') \<and>
   post_products 1700000000000 create_shirt (stored create_shirt empty_store) =
     ((201, Product \<lparr>ident = ''1700000000000'', name = Some (JStr ''Shirt''),
                      price = Num ''100000'', description = JStr [],
                      images = [''1700000000000-111.png'', ''1700000000000-222.png''],
                      others = []\<rparr>),
      shirt_store)"
  by (simp add: post_products_def create_shirt_def stored_def empty_store_def shirt_store_def
      req_files_def files_def body_def toString.simps digit_char_def parseFloat_def
      numeric_prefix_def unsigned_literal_def exponent_part_def isWhiteSpace_def isDigit_def
      or_empty_def saveDatabase_def pic1_def pic2_def shirt_def Let_def insert_commute)

subsection \<open>Updating a product\<close>

text \<open>
  What the update route does for an identifier that \<^verbatim>\<open>find\<close> resolves, when
  \<^verbatim>\<open>parseFloat\<close> gives a number for the price: it answers 200 with the first product of
  that identifier, in which the name and the description are those of the request, the
  price is that number and the pictures are the former ones followed by the stored
  names of the files of the request; it puts that record in the place of the former one
  and saves.
\<close>

lemma post_product_found:
  assumes "find (\<lambda>p. ident p = params_id req) (products st) = Some old"
    and "parseFloat (map_of (body req) ''price'') = Inr number"
  shows "post_product req st =
     ((200, Product (old\<lparr>name := map_of (body req) ''name'',
                          price := number,
                          description := or_empty (map_of (body req) ''description''),
                          images := images old @ map filename (req_files req)\<rparr>)),
      st\<lparr>products := (products st)
            [length (takeWhile (\<lambda>q. ident q \<noteq> params_id req) (products st)) :=
               old\<lparr>name := map_of (body req) ''name'',
                   price := number,
                   description := or_empty (map_of (body req) ''description''),
                   images := images old @ map filename (req_files req)\<rparr>],
         database_json := (products st)
            [length (takeWhile (\<lambda>q. ident q \<noteq> params_id req) (products st)) :=
               old\<lparr>name := map_of (body req) ''name'',
                   price := number,
                   description := or_empty (map_of (body req) ''description''),
                   images := images old @ map filename (req_files req)\<rparr>]\<rparr>)"
proof -
  let ?n = "length (takeWhile (\<lambda>q. ident q \<noteq> params_id req) (products st))"
  have idx: "findIndex (\<lambda>p. ident p = params_id req) (products st) = int ?n"
    and nth: "products st ! ?n = old"
    using find_Some_findIndex [OF assms(1)] by simp_all
  show ?thesis
  proof (cases "files req")
    case None
    then show ?thesis
      by (simp add: post_product_def Let_def idx nth assms(2) saveDatabase_def req_files_def)
  next
    case (Some fs)
    then show ?thesis
      by (cases fs)
        (simp_all add: post_product_def Let_def idx nth assms(2) saveDatabase_def req_files_def)
  qed
qed

text \<open>
  When \<^verbatim>\<open>parseFloat\<close> throws on the price, the route answers 500 and changes nothing.
\<close>

lemma post_product_throws:
  assumes "find (\<lambda>p. ident p = params_id req) (products st) = Some old"
    and "parseFloat (map_of (body req) ''price'') = Inl e"
  shows "post_product req st = ((500, Error ''Internal server error''), st)"
proof -
  have "findIndex (\<lambda>p. ident p = params_id req) (products st)
          = int (length (takeWhile (\<lambda>q. ident q \<noteq> params_id req) (products st)))"
    using find_Some_findIndex [OF assms(1)] by simp
  then show ?thesis
    by (simp add: post_product_def Let_def assms(2) internal_error_def)
qed

text \<open>
  C1, at the edit of the shirt that declares the first picture as the only one kept and
  uploads none: the pictures of the updated record are both former pictures, in their
  former order. The list \<^verbatim>\<open>existingImages\<close> of the form is not read.
\<close>

theorem update_ignores_kept_images:
  "map_of (body edit_shirt) ''existingImages'' = Some (JArr [JStr ''1700000000000-111.png'']) \<and>
   req_files edit_shirt = [] \<and>
   fst (post_product edit_shirt shirt_store) =
     (200, Product \<lparr>ident = ''1700000000000'', name = Some (JStr ''Shirt XL''),
                     price = Num ''120000'', description = JStr ''Large'',
                     images = [''1700000000000-111.png'', ''1700000000000-222.png''],
                     others = []\<rparr>)"
  by (simp add: post_product_def edit_shirt_def shirt_store_def shirt_def req_files_def
      files_def body_def findIndex_def parseFloat_def numeric_prefix_def unsigned_literal_def
      exponent_part_def isWhiteSpace_def isDigit_def or_empty_def Let_def)

text \<open>
  C4, as the code has it: an update request whose identifier no product of the store
  has, and whose files were stored under names that are pairwise different and were not
  in the directory before, is answered 404, and the state of the server after it is the
  state before the files of the request were stored: the directory holds the files it
  held.
\<close>

theorem update_unknown_reclaims_uploads:
  assumes "find (\<lambda>p. ident p = params_id req) (products st) = None"
    and "distinct (map filename (req_files req))"
    and "set (map filename (req_files req)) \<inter> uploads st = {}"
  shows "post_product req (stored req st) = ((404, Error ''Product not found''), st)"
proof -
  have "products (stored req st) = products st"
    by (simp add: stored_def)
  with assms(1) have "findIndex (\<lambda>p. ident p = params_id req) (products (stored req st)) = - 1"
    by (simp add: find_None_findIndex)
  then show ?thesis
    by (simp add: post_product_def cleanup_stored [OF assms(2,3)])
qed

text \<open>
  The edit of the unknown product 42, sent with one picture while the store holds the
  shirt: the picture is in the directory when the callback starts and gone when it ends.
\<close>

theorem update_unknown_reclaims_uploads_witness:
  "find (\<lambda>p. ident p = params_id edit_unknown) (products shirt_store) = None \<and>
   distinct (map filename (req_files edit_unknown)) \<and>
   set (map filename (req_files edit_unknown)) \<inter> uploads shirt_store = {} \<and>
   ''1700000000000-333.png'' \<in> uploads (stored edit_unknown shirt_store) \<and>
   post_product edit_unknown (stored edit_unknown shirt_store) =
     ((404, Error ''Product not found''), shirt_store)"
proof -
  have n: "find (\<lambda>p. ident p = params_id edit_unknown) (products shirt_store) = None"
    by (simp add: edit_unknown_def shirt_store_def shirt_def)
  have d: "distinct (map filename (req_files edit_unknown))"
    by (simp add: edit_unknown_def req_files_def files_def)
  have f: "set (map filename (req_files edit_unknown)) \<inter> uploads shirt_store = {}"
    by (simp add: edit_unknown_def req_files_def files_def pic3_def shirt_store_def)
  have s: "''1700000000000-333.png'' \<in> uploads (stored edit_unknown shirt_store)"
    by (simp add: stored_def edit_unknown_def req_files_def files_def pic3_def)
  show ?thesis
    using update_unknown_reclaims_uploads [OF n d f] n d f s by simp
qed

text \<open>
  The claim C4 as the specification states it fails when the storage draws a name
  twice. With two files of the request under one name, the second removal throws and
  the answer is 500, not 404. With a file under the name of a picture of the shirt, the
  answer is 404 and that picture, which was in the directory before the request and
  which the shirt still lists, is gone.
\<close>

theorem update_unknown_name_collision:
  "fst (post_product edit_unknown_twice (stored edit_unknown_twice shirt_store))
     = (500, Error ''Internal server error'') \<and>
   ''1700000000000-111.png'' \<in> uploads shirt_store \<and>
   post_product edit_unknown_clash (stored edit_unknown_clash shirt_store)
     = ((404, Error ''Product not found''),
        shirt_store\<lparr>uploads := {''1700000000000-222.png''}\<rparr>)"
  by (simp add: post_product_def edit_unknown_twice_def edit_unknown_clash_def
      body_def files_def req_files_def stored_def cleanup_def unlinkSync_def internal_error_def
      findIndex_def pic3_def pic3_again_def pic1_again_def shirt_store_def shirt_def
      insert_Diff_if)

text \<open>
  C7, at the edit of the shirt that sends the stock 9 and the pin flag set: the name,
  the price and the description of the stored record are those of the form, the record
  is in the persisted document when it is returned, and the record has neither a stock
  nor a pin flag. At the same edit of a shirt that was read from the document with a
  stock of 5 and no pin, the stock is still 5 and the product still not pinned: every
  property other than the name, the price, the description and the pictures is taken
  from the former record.
\<close>

theorem update_ignores_stock_and_pinned:
  "map_of (body edit_shirt) ''stock'' = Some (JStr ''9'') \<and>
   map_of (body edit_shirt) ''pinned'' = Some (JStr ''true'') \<and>
   post_product edit_shirt shirt_store =
     ((200, Product \<lparr>ident = ''1700000000000'', name = Some (JStr ''Shirt XL''),
                     price = Num ''120000'', description = JStr ''Large'',
                     images = [''1700000000000-111.png'', ''1700000000000-222.png''],
                     others = []\<rparr>),
      \<lparr>products =
         [\<lparr>ident = ''1700000000000'', name = Some (JStr ''Shirt XL''),
           price = Num ''120000'', description = JStr ''Large'',
           images = [''1700000000000-111.png'', ''1700000000000-222.png''], others = []\<rparr>],
       uploads = {''1700000000000-111.png'', ''1700000000000-222.png''},
       database_json =
         [\<lparr>ident = ''1700000000000'', name = Some (JStr ''Shirt XL''),
           price = Num ''120000'', description = JStr ''Large'',
           images = [''1700000000000-111.png'', ''1700000000000-222.png''], others = []\<rparr>]\<rparr>) \<and>
   fst (post_product edit_shirt
      \<lparr>products = [shirt\<lparr>others := [(''stock'', JNum (Num ''5'')), (''pinned'', JBool False)]\<rparr>],
       uploads = {''1700000000000-111.png'', ''1700000000000-222.png''},
       database_json = [shirt\<lparr>others := [(''stock'', JNum (Num ''5'')), (''pinned'', JBool False)]\<rparr>]\<rparr>) =
     (200, Product \<lparr>ident = ''1700000000000'', name = Some (JStr ''Shirt XL''),
                     price = Num ''120000'', description = JStr ''Large'',
                     images = [''1700000000000-111.png'', ''1700000000000-222.png''],
                     others = [(''stock'', JNum (Num ''5'')), (''pinned'', JBool False)]\<rparr>)"
  by (simp add: post_product_def edit_shirt_def shirt_store_def shirt_def req_files_def
      files_def body_def findIndex_def parseFloat_def numeric_prefix_def unsigned_literal_def
      exponent_part_def isWhiteSpace_def isDigit_def or_empty_def saveDatabase_def Let_def)

text \<open>
  C10, as the code has it: an update request whose identifier a product of the store
  has is never answered 400, whatever it holds. When \<^verbatim>\<open>parseFloat\<close> throws on the
  price, the answer is 500 and nothing changes; it throws on an object that has a
  property \<^verbatim>\<open>toString\<close> of its own. Otherwise the answer is 200 with the updated record,
  which is stored (reading the identifier back gives it) and persisted; its name is the
  one of the request, undefined when the request has none, and its price is the number
  that \<^verbatim>\<open>parseFloat\<close> gives: \<^verbatim>\<open>NaN\<close> when the request has no price; for a text,
  \<^verbatim>\<open>NaN\<close> when the text does not begin, after white space, with a decimal literal,
  and the number of that literal when it does, whatever follows it.
\<close>

theorem update_never_validates:
  assumes "find (\<lambda>p. ident p = params_id req) (products st) = Some old"
  shows "fst (fst (post_product req st)) \<noteq> 400 \<and>
         (parseFloat (map_of (body req) ''price'') = Inl TypeError \<longrightarrow>
            post_product req st = ((500, Error ''Internal server error''), st)) \<and>
         (\<forall>number. parseFloat (map_of (body req) ''price'') = Inr number \<longrightarrow>
            (\<exists>p. fst (post_product req st) = (200, Product p) \<and>
                 get_product (params_id req) (snd (post_product req st)) = (200, Product p) \<and>
                 database_json (snd (post_product req st)) = products (snd (post_product req st)) \<and>
                 name p = map_of (body req) ''name'' \<and>
                 price p = number)) \<and>
         (map_of (body req) ''price'' = None \<longrightarrow>
            parseFloat (map_of (body req) ''price'') = Inr NaN) \<and>
         (\<forall>s. map_of (body req) ''price'' = Some (JStr s) \<longrightarrow>
            parseFloat (map_of (body req) ''price'') =
              Inr (case numeric_prefix s of None \<Rightarrow> NaN | Some l \<Rightarrow> Num l)) \<and>
         (\<forall>kvs. map_of (body req) ''price'' = Some (JObj kvs) \<longrightarrow>
            map_of kvs ''toString'' \<noteq> None \<longrightarrow>
            parseFloat (map_of (body req) ''price'') = Inl TypeError)"
proof -
  have found: "\<exists>p. fst (post_product req st) = (200, Product p) \<and>
        get_product (params_id req) (snd (post_product req st)) = (200, Product p) \<and>
        database_json (snd (post_product req st)) = products (snd (post_product req st)) \<and>
        name p = map_of (body req) ''name'' \<and> price p = number"
    if number: "parseFloat (map_of (body req) ''price'') = Inr number" for number
  proof -
    let ?p = "old\<lparr>name := map_of (body req) ''name'', price := number,
                   description := or_empty (map_of (body req) ''description''),
                   images := images old @ map filename (req_files req)\<rparr>"
    from assms have "ident old = params_id req"
      by (auto simp: find_Some_iff)
    then have "ident ?p = params_id req" by simp
    with assms have "find (\<lambda>q. ident q = params_id req)
        ((products st)[length (takeWhile (\<lambda>q. ident q \<noteq> params_id req) (products st)) := ?p])
        = Some ?p"
      using find_list_update_first [of "\<lambda>q. ident q = params_id req" "products st" old ?p]
      by simp
    then have "get_product (params_id req) (snd (post_product req st)) = (200, Product ?p)"
      by (simp add: post_product_found [OF assms number] get_product_def)
    then show ?thesis
      by (intro exI [of _ ?p]) (simp add: post_product_found [OF assms number])
  qed
  have status: "fst (fst (post_product req st)) \<noteq> 400"
  proof (cases "parseFloat (map_of (body req) ''price'')")
    case (Inl e)
    then show ?thesis by (simp add: post_product_throws [OF assms])
  next
    case (Inr number)
    then show ?thesis by (simp add: post_product_found [OF assms])
  qed
  have undefined: "parseFloat None = Inr NaN"
    by (simp add: parseFloat_def numeric_prefix_def unsigned_literal_def isWhiteSpace_def
        isDigit_def)
  show ?thesis
    using status found undefined
    by (auto simp: post_product_throws [OF assms] parseFloat_def)
qed

text \<open>
  Four edits of the shirt. The empty form stores an undefined name and the price
  \<^verbatim>\<open>NaN\<close>; the price \<^verbatim>\<open>abc\<close> stores \<^verbatim>\<open>NaN\<close>; the price \<^verbatim>\<open>12abc\<close> stores 12; all three
  are answered 200. The price that is an object with a property \<^verbatim>\<open>toString\<close> is
  answered 500 and the store is as before.
\<close>

theorem update_never_validates_witness:
  "find (\<lambda>p. ident p = params_id edit_blank) (products shirt_store) = Some shirt \<and>
   map_of (body edit_blank) ''name'' = None \<and>
   map_of (body edit_blank) ''price'' = None \<and>
   fst (post_product edit_blank shirt_store) =
     (200, Product (shirt\<lparr>name := None, price := NaN\<rparr>)) \<and>
   map_of (body edit_priceless) ''price'' = Some (JStr ''abc'') \<and>
   numeric_prefix ''abc'' = None \<and>
   fst (post_product edit_priceless shirt_store) = (200, Product (shirt\<lparr>price := NaN\<rparr>)) \<and>
   map_of (body edit_12abc) ''price'' = Some (JStr ''12abc'') \<and>
   numeric_prefix ''12abc'' = Some ''12'' \<and>
   fst (post_product edit_12abc shirt_store) = (200, Product (shirt\<lparr>price := Num ''12''\<rparr>)) \<and>
   map_of (body edit_unprintable) ''price'' = Some (JObj [(''toString'', JNum (Num ''0''))]) \<and>
   post_product edit_unprintable shirt_store = ((500, Error ''Internal server error''), shirt_store)"
proof -
  have f1: "find (\<lambda>p. ident p = params_id edit_blank) (products shirt_store) = Some shirt"
    and f2: "find (\<lambda>p. ident p = params_id edit_priceless) (products shirt_store) = Some shirt"
    and f3: "find (\<lambda>p. ident p = params_id edit_12abc) (products shirt_store) = Some shirt"
    and f4: "find (\<lambda>p. ident p = params_id edit_unprintable) (products shirt_store) = Some shirt"
    by (simp_all add: edit_blank_def edit_priceless_def edit_12abc_def edit_unprintable_def
        shirt_store_def shirt_def)
  have b1: "map_of (body edit_blank) ''name'' = None" "map_of (body edit_blank) ''price'' = None"
    by (simp_all add: edit_blank_def body_def)
  have b2: "map_of (body edit_priceless) ''price'' = Some (JStr ''abc'')"
    "map_of (body edit_priceless) ''name'' = Some (JStr ''Shirt'')"
    by (simp_all add: edit_priceless_def body_def)
  have b3: "map_of (body edit_12abc) ''price'' = Some (JStr ''12abc'')"
    "map_of (body edit_12abc) ''name'' = Some (JStr ''Shirt'')"
    by (simp_all add: edit_12abc_def body_def)
  have b4: "map_of (body edit_unprintable) ''price'' = Some (JObj [(''toString'', JNum (Num ''0''))])"
    by (simp add: edit_unprintable_def body_def)
  have n2: "numeric_prefix ''abc'' = None"
    by (simp add: numeric_prefix_def unsigned_literal_def isWhiteSpace_def isDigit_def)
  have n3: "numeric_prefix ''12abc'' = Some ''12''"
    by (simp add: numeric_prefix_def unsigned_literal_def exponent_part_def isWhiteSpace_def
        isDigit_def)
  from update_never_validates [OF f1] b1 obtain p1 where
    p1: "fst (post_product edit_blank shirt_store) = (200, Product p1)"
        "name p1 = None" "price p1 = NaN"
    by auto
  from update_never_validates [OF f2] b2 n2 obtain p2 where
    p2: "fst (post_product edit_priceless shirt_store) = (200, Product p2)"
        "name p2 = Some (JStr ''Shirt'')" "price p2 = NaN"
    by auto
  from update_never_validates [OF f3] b3 n3 obtain p3 where
    p3: "fst (post_product edit_12abc shirt_store) = (200, Product p3)"
        "name p3 = Some (JStr ''Shirt'')" "price p3 = Num ''12''"
    by auto
  from update_never_validates [OF f4] b4
  have r4: "post_product edit_unprintable shirt_store =
      ((500, Error ''Internal server error''), shirt_store)"
    by auto
  have "\<exists>n. fst (post_product edit_blank shirt_store) =
          (200, Product (shirt\<lparr>name := None, price := n\<rparr>))"
    by (simp add: post_product_def edit_blank_def shirt_store_def shirt_def req_files_def
        files_def body_def findIndex_def parseFloat_def or_empty_def Let_def)
  with p1 have r1: "fst (post_product edit_blank shirt_store) =
          (200, Product (shirt\<lparr>name := None, price := NaN\<rparr>))"
    by auto
  have "\<exists>n. fst (post_product edit_priceless shirt_store) = (200, Product (shirt\<lparr>price := n\<rparr>))"
    by (simp add: post_product_def edit_priceless_def shirt_store_def shirt_def req_files_def
        files_def body_def findIndex_def parseFloat_def or_empty_def Let_def)
  with p2 have r2: "fst (post_product edit_priceless shirt_store) =
          (200, Product (shirt\<lparr>price := NaN\<rparr>))"
    by auto
  have "\<exists>n. fst (post_product edit_12abc shirt_store) = (200, Product (shirt\<lparr>price := n\<rparr>))"
    by (simp add: post_product_def edit_12abc_def shirt_store_def shirt_def req_files_def
        files_def body_def findIndex_def parseFloat_def or_empty_def Let_def)
  with p3 have r3: "fst (post_product edit_12abc shirt_store) =
          (200, Product (shirt\<lparr>price := Num ''12''\<rparr>))"
    by auto
  from f1 b1 b2 b3 b4 n2 n3 r1 r2 r3 r4 show ?thesis by simp
qed

text \<open>
  The claim C10 as the specification states it fails in two ways. The update of an
  existing product does not always succeed: the JSON body whose price is an object with
  a property \<^verbatim>\<open>toString\<close> is answered 500. And a price that is no number does not
  always store \<^verbatim>\<open>NaN\<close>: the price \<^verbatim>\<open>12abc\<close> stores 12.
\<close>

theorem update_fails_or_reads_prefix:
  "fst (post_product edit_unprintable shirt_store) = (500, Error ''Internal server error'') \<and>
   map_of (body edit_12abc) ''price'' = Some (JStr ''12abc'') \<and>
   fst (post_product edit_12abc shirt_store) =
     (200, Product \<lparr>ident = ''1700000000000'', name = Some (JStr ''Shirt''),
                     price = Num ''12'', description = JStr [],
                     images = [''1700000000000-111.png'', ''1700000000000-222.png''],
                     others = []\<rparr>)"
  by (simp add: post_product_def edit_unprintable_def edit_12abc_def shirt_store_def shirt_def
      req_files_def files_def body_def findIndex_def parseFloat_def numeric_prefix_def
      unsigned_literal_def exponent_part_def isWhiteSpace_def isDigit_def or_empty_def
      internal_error_def Let_def)

subsection \<open>Deleting a product\<close>

text \<open>
  What the delete route does for an identifier that \<^verbatim>\<open>find\<close> resolves: it answers 200,
  removes from the directory every listed picture that is there, takes the first
  product with that identifier out of the collection, and saves.
\<close>

lemma delete_product_found:
  assumes "find (\<lambda>p. ident p = params_id req) (products st) = Some p"
  shows "delete_product req st =
     ((200, Message ''Product deleted successfully''),
      st\<lparr>uploads := uploads st - set (images p),
         products := splice1 (length (takeWhile (\<lambda>q. ident q \<noteq> params_id req) (products st)))
                       (products st),
         database_json := splice1 (length (takeWhile (\<lambda>q. ident q \<noteq> params_id req) (products st)))
                       (products st)\<rparr>)"
proof -
  let ?n = "length (takeWhile (\<lambda>q. ident q \<noteq> params_id req) (products st))"
  have idx: "findIndex (\<lambda>p. ident p = params_id req) (products st) = int ?n"
    and nth: "products st ! ?n = p"
    using find_Some_findIndex [OF assms] by simp_all
  show ?thesis
    by (simp add: delete_product_def idx nth unlink_images_ok saveDatabase_def Let_def)
qed

text \<open>
  C2, as the code has it: when exactly one product of the store has the identifier, the
  delete route answers 200, the collection afterwards is the former one without that
  product, it is persisted, the directory is the former one without the pictures of the
  product, so that none of them remains, and reading the identifier answers 404.
\<close>

theorem delete_then_get_unique:
  assumes "find (\<lambda>p. ident p = params_id req) (products st) = Some p"
    and "length (filter (\<lambda>q. ident q = params_id req) (products st)) = 1"
  shows "fst (delete_product req st) = (200, Message ''Product deleted successfully'') \<and>
         products (snd (delete_product req st)) = filter (\<lambda>q. ident q \<noteq> params_id req) (products st) \<and>
         database_json (snd (delete_product req st)) = products (snd (delete_product req st)) \<and>
         uploads (snd (delete_product req st)) = uploads st - set (images p) \<and>
         get_product (params_id req) (snd (delete_product req st)) = (404, Error ''Product not found'')"
proof -
  let ?P = "\<lambda>q. ident q = params_id req"
  have sp: "splice1 (length (takeWhile (\<lambda>q. \<not> ?P q) (products st))) (products st)
            = filter (\<lambda>q. \<not> ?P q) (products st)"
    using assms(2) by (rule splice1_unique)
  have nf: "find ?P (filter (\<lambda>q. \<not> ?P q) (products st)) = None"
    by (rule find_filter_None)
  show ?thesis
    using sp nf by (simp add: delete_product_found [OF assms(1)] get_product_def)
qed

text \<open>The shirt, alone in the store, deleted: the store and the directory are empty.\<close>

theorem delete_then_get_unique_witness:
  "find (\<lambda>p. ident p = params_id delete_shirt) (products shirt_store) = Some shirt \<and>
   length (filter (\<lambda>q. ident q = params_id delete_shirt) (products shirt_store)) = 1 \<and>
   fst (delete_product delete_shirt shirt_store) = (200, Message ''Product deleted successfully'') \<and>
   products (snd (delete_product delete_shirt shirt_store)) = [] \<and>
   uploads (snd (delete_product delete_shirt shirt_store)) = {} \<and>
   get_product ''1700000000000'' (snd (delete_product delete_shirt shirt_store))
     = (404, Error ''Product not found'')"
proof -
  have f: "find (\<lambda>p. ident p = params_id delete_shirt) (products shirt_store) = Some shirt"
    and u: "length (filter (\<lambda>q. ident q = params_id delete_shirt) (products shirt_store)) = 1"
    by (simp_all add: delete_shirt_def shirt_store_def shirt_def)
  have i: "params_id delete_shirt = ''1700000000000''"
    by (simp add: delete_shirt_def)
  have "uploads shirt_store - set (images shirt) = {}"
    by (simp add: shirt_store_def shirt_def)
  moreover have "filter (\<lambda>q. ident q \<noteq> params_id delete_shirt) (products shirt_store) = []"
    by (simp add: delete_shirt_def shirt_store_def shirt_def)
  ultimately show ?thesis
    using delete_then_get_unique [OF f u] f u i by simp
qed

text \<open>
  The claim C2 as the specification states it fails when two products have the
  identifier: the delete route removes the first, the shirt, and reading the identifier
  afterwards answers 200 with the second, the cap.
\<close>

theorem delete_then_get_duplicate_id:
  "fst (delete_product delete_shirt
          \<lparr>products = [shirt, cap],
           uploads = {''1700000000000-111.png'', ''1700000000000-222.png'', ''1700000000000-333.png''},
           database_json = [shirt, cap]\<rparr>)
     = (200, Message ''Product deleted successfully'') \<and>
   get_product (params_id delete_shirt)
     (snd (delete_product delete_shirt
          \<lparr>products = [shirt, cap],
           uploads = {''1700000000000-111.png'', ''1700000000000-222.png'', ''1700000000000-333.png''},
           database_json = [shirt, cap]\<rparr>))
     = (200, Product cap)"
  by (simp add: delete_product_def delete_shirt_def shirt_def cap_def findIndex_def
      existsSync_def unlinkSync_def splice1_def saveDatabase_def get_product_def)

text \<open>
  C9: for every product that the store holds, whichever of its listed pictures are
  missing from the directory, the delete route answers 200 with its message of
  success, and afterwards the directory is the one before without the listed names:
  the missing ones are passed over and the others are removed. The product (the first
  of its identifier) is taken out of the collection, and the collection is persisted.
\<close>

theorem delete_tolerates_missing_files:
  assumes "find (\<lambda>p. ident p = params_id req) (products st) = Some p"
  shows "fst (delete_product req st) = (200, Message ''Product deleted successfully'') \<and>
         uploads (snd (delete_product req st)) = uploads st - set (images p) \<and>
         products (snd (delete_product req st)) =
           splice1 (length (takeWhile (\<lambda>q. ident q \<noteq> params_id req) (products st))) (products st) \<and>
         database_json (snd (delete_product req st)) = products (snd (delete_product req st))"
  by (simp add: delete_product_found [OF assms])

text \<open>
  The shirt deleted when its first picture has been removed from the directory by hand
  and a picture of another product is there: the second picture goes, the other stays.
\<close>

theorem delete_tolerates_missing_files_witness:
  "find (\<lambda>p. ident p = params_id delete_shirt)
     (products (shirt_store\<lparr>uploads := {''1700000000000-222.png'', ''1700000000000-333.png''}\<rparr>))
     = Some shirt \<and>
   ''1700000000000-111.png'' \<in> set (images shirt) \<and>
   ''1700000000000-111.png'' \<notin> {''1700000000000-222.png'', ''1700000000000-333.png''} \<and>
   fst (delete_product delete_shirt
          (shirt_store\<lparr>uploads := {''1700000000000-222.png'', ''1700000000000-333.png''}\<rparr>))
     = (200, Message ''Product deleted successfully'') \<and>
   uploads (snd (delete_product delete_shirt
          (shirt_store\<lparr>uploads := {''1700000000000-222.png'', ''1700000000000-333.png''}\<rparr>)))
     = {''1700000000000-333.png''} \<and>
   products (snd (delete_product delete_shirt
          (shirt_store\<lparr>uploads := {''1700000000000-222.png'', ''1700000000000-333.png''}\<rparr>)))
     = []"
proof -
  let ?st = "shirt_store\<lparr>uploads := {''1700000000000-222.png'', ''1700000000000-333.png''}\<rparr>"
  have f: "find (\<lambda>p. ident p = params_id delete_shirt) (products ?st) = Some shirt"
    by (simp add: delete_shirt_def shirt_store_def shirt_def)
  have "uploads ?st - set (images shirt) = {''1700000000000-333.png''}"
    by (auto simp: shirt_def)
  moreover have "splice1 (length (takeWhile (\<lambda>q. ident q \<noteq> params_id delete_shirt) (products ?st)))
      (products ?st) = []"
    by (simp add: delete_shirt_def shirt_store_def shirt_def splice1_def)
  ultimately show ?thesis
    using delete_tolerates_missing_files [OF f] f by (simp add: shirt_def)
qed

end
